theory Spec2Isabelle
  imports Main "HOL-Library.Word"
begin

unbundle bit_operations_syntax

section \<open>sttyl: a table-driven subset of stty\<close>

text \<open>
  The program \<^verbatim>\<open>sttyl.c\<close> reads the attributes of the terminal on standard input,
  prints them when it has no arguments, and otherwise changes them as its arguments say
  and writes them back. This theory embeds its functions and proves the properties its
  specification states about them.
\<close>

subsection \<open>What \<^verbatim>\<open>termios.h\<close> declares\<close>

text \<open>
  \<^verbatim>\<open>tcflag_t\<close> and \<^verbatim>\<open>speed_t\<close> are \<^verbatim>\<open>unsigned int\<close> in glibc; \<^verbatim>\<open>cc_t\<close> is
  \<^verbatim>\<open>unsigned char\<close>, a byte, which is what \<^typ>\<open>char\<close> is in HOL.
  \<^verbatim>\<open>struct winsize\<close> holds \<^verbatim>\<open>unsigned short\<close> values.
\<close>

type_synonym tcflag_t = "32 word"
type_synonym speed_t = "32 word"
type_synonym cc_t = char

record termios =
  c_iflag :: tcflag_t
  c_oflag :: tcflag_t
  c_cflag :: tcflag_t
  c_lflag :: tcflag_t
  c_line :: cc_t
  c_cc :: "cc_t list"
  c_ispeed :: speed_t
  c_ospeed :: speed_t

record winsize =
  ws_row :: "16 word"
  ws_col :: "16 word"

text \<open>
  The values of the macros that \<^verbatim>\<open>sttyl.c\<close> takes from the system headers differ from
  one platform to the next, and the headers are no part of the program: they are a
  parameter of every function here. \<open>Bcode p n\<close> is the macro \<^verbatim>\<open>Bn\<close> (\<^verbatim>\<open>B0\<close>,
  \<^verbatim>\<open>B50\<close>, ..., \<^verbatim>\<open>B38400\<close>); \<open>NCCS p\<close> is the size of the array \<^verbatim>\<open>c_cc\<close>;
  \<open>cfgetospeed p\<close> is the function of that name of the platform's C library.
\<close>

record platform =
  ICRNL :: tcflag_t
  OPOST :: tcflag_t
  HUPCL :: tcflag_t
  ISIG :: tcflag_t
  ICANON :: tcflag_t
  ECHO :: tcflag_t
  ECHOE :: tcflag_t
  ECHOK :: tcflag_t
  VEOF :: nat
  VEOL :: nat
  VERASE :: nat
  VINTR :: nat
  VKILL :: nat
  VQUIT :: nat
  VSUSP :: nat
  NCCS :: nat
  POSIX_VDISABLE :: cc_t
  Bcode :: "nat \<Rightarrow> speed_t"
  cfgetospeed :: "termios \<Rightarrow> speed_t"

text \<open>
  The values of Linux (glibc, x86-64), for the concrete runs below. \<open>Bcode\<close> is only
  ever applied to the sixteen rates \<^verbatim>\<open>getbaud\<close> knows; elsewhere it is a code that
  is none of theirs. The \<^verbatim>\<open>cfgetospeed\<close> of glibc returns the baud bits of the control
  flags, \<^verbatim>\<open>c_cflag & (CBAUD | CBAUDEX)\<close>.
\<close>

definition linux :: platform where
  "linux = \<lparr>ICRNL = 0x100, OPOST = 0x1, HUPCL = 0x400, ISIG = 0x1, ICANON = 0x2,
     ECHO = 0x8, ECHOE = 0x10, ECHOK = 0x20,
     VEOF = 4, VEOL = 11, VERASE = 2, VINTR = 0, VKILL = 3, VQUIT = 1, VSUSP = 10,
     NCCS = 32, POSIX_VDISABLE = CHR 0x00,
     Bcode = (\<lambda>n. if n = 0 then 0 else if n = 50 then 1 else if n = 75 then 2
       else if n = 110 then 3 else if n = 134 then 4 else if n = 150 then 5
       else if n = 200 then 6 else if n = 300 then 7 else if n = 600 then 8
       else if n = 1200 then 9 else if n = 1800 then 10 else if n = 2400 then 11
       else if n = 4800 then 12 else if n = 9600 then 13 else if n = 19200 then 14
       else if n = 38400 then 15 else 0xFFFFFFFF),
     cfgetospeed = (\<lambda>info. c_cflag info AND 0x100F)\<rparr>"

subsection \<open>The tables\<close>

text \<open>
  \<^verbatim>\<open>struct table_t {tcflag_t flag; char *name; char *type; unsigned long mode; }\<close>:
  \<open>mode\<close> is the offset of one of the four flag words in \<^verbatim>\<open>struct termios\<close>. The
  program only ever builds it with \<^verbatim>\<open>offsetof\<close>, so an offset is one of four values.
\<close>

datatype offset = Off_iflag | Off_oflag | Off_cflag | Off_lflag

record table_t =
  flag :: tcflag_t
  name :: string
  type :: string
  mode :: offset

record ctable_t =
  c_value :: nat
  c_name :: string

text \<open>
  Both tables end with an entry whose name is \<^verbatim>\<open>NULL\<close>, where every loop over them
  stops: here the end of the list.
\<close>

definition table :: "platform \<Rightarrow> table_t list" where
  "table p =
    [\<lparr>flag = ICRNL p, name = ''icrnl'', type = ''iflag'', mode = Off_iflag\<rparr>,
     \<lparr>flag = OPOST p, name = ''opost'', type = ''oflag'', mode = Off_oflag\<rparr>,
     \<lparr>flag = HUPCL p, name = ''hupcl'', type = ''cflag'', mode = Off_cflag\<rparr>,
     \<lparr>flag = ISIG p, name = ''isig'', type = ''lflag'', mode = Off_lflag\<rparr>,
     \<lparr>flag = ICANON p, name = ''icanon'', type = ''lflag'', mode = Off_lflag\<rparr>,
     \<lparr>flag = ECHO p, name = ''echo'', type = ''lflag'', mode = Off_lflag\<rparr>,
     \<lparr>flag = ECHOE p, name = ''echoe'', type = ''lflag'', mode = Off_lflag\<rparr>,
     \<lparr>flag = ECHOK p, name = ''echok'', type = ''lflag'', mode = Off_lflag\<rparr>]"

definition cchars :: "platform \<Rightarrow> ctable_t list" where
  "cchars p =
    [\<lparr>c_value = VEOF p, c_name = ''eof''\<rparr>,
     \<lparr>c_value = VEOL p, c_name = ''eol''\<rparr>,
     \<lparr>c_value = VERASE p, c_name = ''erase''\<rparr>,
     \<lparr>c_value = VINTR p, c_name = ''intr''\<rparr>,
     \<lparr>c_value = VKILL p, c_name = ''kill''\<rparr>,
     \<lparr>c_value = VQUIT p, c_name = ''quit''\<rparr>,
     \<lparr>c_value = VSUSP p, c_name = ''susp''\<rparr>]"

text \<open>
  \<^verbatim>\<open>tcflag_t * mode_p = (tcflag_t *)((char *)(info) + entry->mode)\<close>: reading and
  writing \<^verbatim>\<open>*mode_p\<close>.
\<close>

fun mode_p :: "offset \<Rightarrow> termios \<Rightarrow> tcflag_t" where
  "mode_p Off_iflag info = c_iflag info"
| "mode_p Off_oflag info = c_oflag info"
| "mode_p Off_cflag info = c_cflag info"
| "mode_p Off_lflag info = c_lflag info"

fun mode_p_update :: "offset \<Rightarrow> tcflag_t \<Rightarrow> termios \<Rightarrow> termios" where
  "mode_p_update Off_iflag w info = info\<lparr>c_iflag := w\<rparr>"
| "mode_p_update Off_oflag w info = info\<lparr>c_oflag := w\<rparr>"
| "mode_p_update Off_cflag w info = info\<lparr>c_cflag := w\<rparr>"
| "mode_p_update Off_lflag w info = info\<lparr>c_lflag := w\<rparr>"

subsection \<open>Errors\<close>

text \<open>
  Every failure of the program is a call of \<^verbatim>\<open>exit(1)\<close> after one diagnostic:
  \<open>Fatal err arg\<close> is \<^verbatim>\<open>fatal(err, arg)\<close>, \<open>Perror msg\<close> is \<^verbatim>\<open>perror(msg); exit(1)\<close>,
  and \<open>Message msg\<close> is \<^verbatim>\<open>fprintf(stderr, msg); exit(1)\<close>.
\<close>

datatype error = Fatal string string | Perror string | Message string

definition fatal :: "string \<Rightarrow> string \<Rightarrow> error + 'a" where
  "fatal err arg = Inl (Fatal err arg)"

text \<open>The names the specification gives the three failures of an argument.\<close>

definition IllegalOption :: "string \<Rightarrow> error" where
  "IllegalOption tok = Fatal ''illegal argument'' tok"

definition MissingArgument :: "string \<Rightarrow> error" where
  "MissingArgument tok = Fatal ''missing argument to'' tok"

definition InvalidCharArgument :: "string \<Rightarrow> error" where
  "InvalidCharArgument tok = Fatal ''invalid integer argument'' tok"

subsection \<open>Option processing\<close>

text \<open>
  An argument is a C string; a \<^typ>\<open>string\<close> holds its bytes before the terminating
  NUL. So \<^verbatim>\<open>strlen\<close> is the length, \<^verbatim>\<open>strcmp(a, b) == 0\<close> is equality, and \<^verbatim>\<open>s[0]\<close>
  is the first byte, or the terminator when the string is empty.
\<close>

definition strlen :: "string \<Rightarrow> nat" where
  "strlen s = length s"

fun first_byte :: "string \<Rightarrow> char" where
  "first_byte [] = CHR 0x00"
| "first_byte (c # cs) = c"

text \<open>
  \<^verbatim>\<open>isascii(value[0])\<close>: no bit above the low seven is set. A \<^verbatim>\<open>char\<close> with the
  high bit set is negative where \<^verbatim>\<open>char\<close> is signed and at least 128 where it is not;
  neither is ASCII.
\<close>

definition isascii :: "char \<Rightarrow> bool" where
  "isascii c = ((of_char c :: nat) < 128)"

text \<open>\<^verbatim>\<open>iscntrl\<close> in the C locale (the program never calls \<^verbatim>\<open>setlocale\<close>).\<close>

definition iscntrl :: "cc_t \<Rightarrow> bool" where
  "iscntrl c = ((of_char c :: nat) < 32 \<or> (of_char c :: nat) = 127)"

text \<open>\<^verbatim>\<open>valid_char_opt\<close>: \<open>Some c\<close> is \<^verbatim>\<open>YES\<close> with \<^verbatim>\<open>*c\<close> set, \<open>None\<close> is \<^verbatim>\<open>NO\<close>.\<close>

fun valid_char_opt_from :: "ctable_t list \<Rightarrow> string \<Rightarrow> ctable_t option" where
  "valid_char_opt_from [] arg = None"
| "valid_char_opt_from (c # cs) arg =
     (if arg = c_name c then Some c else valid_char_opt_from cs arg)"

definition valid_char_opt :: "platform \<Rightarrow> string \<Rightarrow> ctable_t option" where
  "valid_char_opt p arg = valid_char_opt_from (cchars p) arg"

fun lookup_from :: "table_t list \<Rightarrow> string \<Rightarrow> table_t option" where
  "lookup_from [] opt = None"
| "lookup_from (e # es) opt = (if opt = name e then Some e else lookup_from es opt)"

definition lookup :: "platform \<Rightarrow> string \<Rightarrow> table_t option" where
  "lookup p opt = lookup_from (table p) opt"

definition change_char :: "ctable_t \<Rightarrow> string \<Rightarrow> termios \<Rightarrow> error + termios" where
  "change_char c val info =
     (if strlen val > 1 \<or> \<not> isascii (first_byte val)
      then fatal ''invalid integer argument'' val
      else Inr (info\<lparr>c_cc := (c_cc info)[c_value c := first_byte val]\<rparr>))"

text \<open>
  The last lines of \<^verbatim>\<open>get_option\<close>, which the specification calls \<open>setFlag\<close>:
  \<^verbatim>\<open>if(status == ON) *mode_p |= entry->flag; else *mode_p &= ~entry->flag;\<close>
\<close>

definition set_flag :: "table_t \<Rightarrow> bool \<Rightarrow> termios \<Rightarrow> termios" where
  "set_flag entry status info =
     (if status
      then mode_p_update (mode entry) (mode_p (mode entry) info OR flag entry) info
      else mode_p_update (mode entry) (mode_p (mode entry) info AND NOT (flag entry)) info)"

definition get_option :: "platform \<Rightarrow> string \<Rightarrow> termios \<Rightarrow> error + termios" where
  "get_option p original info =
     (let (status, opt) =
        (if first_byte original = CHR ''-'' then (False, tl original) else (True, original))
      in case lookup p opt of
           None \<Rightarrow> fatal ''illegal argument'' original
         | Some entry \<Rightarrow> Inr (set_flag entry status info))"

text \<open>
  The loop of \<^verbatim>\<open>main\<close> over \<^verbatim>\<open>av[1]\<close>, \<^verbatim>\<open>av[2]\<close>, ...: the arguments still to read
  and the attributes so far.
\<close>

fun main_loop :: "platform \<Rightarrow> string list \<Rightarrow> termios \<Rightarrow> error + termios" where
  "main_loop p [] info = Inr info"
| "main_loop p (a # rest) info =
     (case valid_char_opt p a of
        Some c \<Rightarrow>
          (case rest of
             v # rest' \<Rightarrow>
               (case change_char c v info of
                  Inl e \<Rightarrow> Inl e
                | Inr info' \<Rightarrow> main_loop p rest' info')
           | [] \<Rightarrow> fatal ''missing argument to'' a)
      | None \<Rightarrow>
          (case get_option p a info of
             Inl e \<Rightarrow> Inl e
           | Inr info' \<Rightarrow> main_loop p rest info'))"

subsection \<open>Display\<close>

text \<open>
  \<^verbatim>\<open>printf("%d", n)\<close> for an \<^verbatim>\<open>int\<close> that is not negative (a baud value, a row or
  a column count): the decimal digits, most significant first.
\<close>

fun show_nat :: "nat \<Rightarrow> string" where
  "show_nat n =
     (if n < 10 then [char_of (48 + int n)]
      else show_nat (n div 10) @ [char_of (48 + int (n mod 10))])"

declare show_nat.simps [simp del]

text \<open>
  \<^verbatim>\<open>show_charset\<close>: \<open>i\<close> is the loop counter, the list the entries from
  \<^verbatim>\<open>cchars[i]\<close> on. \<^verbatim>\<open>value ^ CHAR_MASK\<close> is computed on \<^verbatim>\<open>int\<close> and printed with
  \<^verbatim>\<open>%c\<close>, which keeps its low byte.
\<close>

definition CHAR_MASK :: int where
  "CHAR_MASK = 64"

definition show_cchar :: "platform \<Rightarrow> ctable_t \<Rightarrow> termios \<Rightarrow> string" where
  "show_cchar p c info =
     (let val = c_cc info ! c_value c in
      if val = POSIX_VDISABLE p then c_name c @ '' = <undef>; ''
      else if iscntrl val then c_name c @ '' = ^'' @ [char_of (of_char val XOR CHAR_MASK)] @ ''; ''
      else c_name c @ '' = '' @ [val] @ ''; '')"

fun show_charset_from :: "platform \<Rightarrow> nat \<Rightarrow> ctable_t list \<Rightarrow> termios \<Rightarrow> string" where
  "show_charset_from p i [] info = []"
| "show_charset_from p i (c # cs) info =
     (if i = 0 then ''cchars: '' else []) @ show_cchar p c info
       @ show_charset_from p (Suc i) cs info"

definition show_charset :: "platform \<Rightarrow> termios \<Rightarrow> string" where
  "show_charset p info = show_charset_from p 0 (cchars p) info"

text \<open>
  \<^verbatim>\<open>show_flagset\<close>: \<open>ty\<close> is the variable \<^verbatim>\<open>type\<close> (\<open>None\<close> for \<^verbatim>\<open>NULL\<close>), the
  list the entries from \<^verbatim>\<open>table[i]\<close> on. After the loop \<^verbatim>\<open>i\<close> is the number of
  entries of the table.
\<close>

definition show_flag :: "table_t \<Rightarrow> termios \<Rightarrow> string" where
  "show_flag e info =
     (if mode_p (mode e) info AND flag e = flag e then name e @ '' ''
      else ''-'' @ name e @ '' '')"

fun show_flagset_from :: "string option \<Rightarrow> table_t list \<Rightarrow> termios \<Rightarrow> string" where
  "show_flagset_from ty [] info = []"
| "show_flagset_from ty (e # es) info =
     (if ty = None \<or> ty \<noteq> Some (type e)
      then [CHR 0x0A] @ type e @ ''s: '' @ show_flag e info
             @ show_flagset_from (Some (type e)) es info
      else show_flag e info @ show_flagset_from ty es info)"

definition show_flagset :: "platform \<Rightarrow> termios \<Rightarrow> string" where
  "show_flagset p info =
     show_flagset_from None (table p) info
       @ (if length (table p) > 0 then [CHR 0x0A] else [])"

text \<open>
  \<^verbatim>\<open>getbaud\<close>: a \<^verbatim>\<open>switch\<close> over the sixteen speed macros, and
  \<^verbatim>\<open>perror(...); exit(1)\<close> for any other value.
\<close>

definition baud_rates :: "nat list" where
  "baud_rates = [0, 50, 75, 110, 134, 150, 200, 300, 600, 1200, 1800, 2400, 4800, 9600,
     19200, 38400]"

fun getbaud_from :: "platform \<Rightarrow> nat list \<Rightarrow> speed_t \<Rightarrow> error + nat" where
  "getbaud_from p [] speed = Inl (Perror ''failed to get baud speed'')"
| "getbaud_from p (n # ns) speed =
     (if speed = Bcode p n then Inr n else getbaud_from p ns speed)"

definition getbaud :: "platform \<Rightarrow> speed_t \<Rightarrow> error + nat" where
  "getbaud p speed = getbaud_from p baud_rates speed"

subsection \<open>The terminal and the run of \<^verbatim>\<open>main\<close>\<close>

text \<open>
  What a run can see and change outside its own memory: the attributes of the terminal
  on descriptor 0 (\<open>None\<close> when descriptor 0 is no terminal and \<^verbatim>\<open>tcgetattr\<close> fails),
  whether \<^verbatim>\<open>tcsetattr\<close> will succeed, the window size \<^verbatim>\<open>TIOCGWINSZ\<close> gives (\<open>None\<close>
  when the \<^verbatim>\<open>ioctl\<close> fails), the text written to the standard output, the diagnostics
  written to the standard error, and the attribute records handed to \<^verbatim>\<open>tcsetattr\<close>
  so far.
\<close>

record world =
  tty :: "termios option"
  setattr_ok :: bool
  window :: "winsize option"
  stdout :: string
  stderr :: "error list"
  applied :: "termios list"

definition get_term_size :: "world \<Rightarrow> error + winsize" where
  "get_term_size w =
     (case window w of
        None \<Rightarrow> Inl (Message ''could not get window size'')
      | Some ws \<Rightarrow> Inr ws)"

definition get_settings :: "world \<Rightarrow> error + termios" where
  "get_settings w =
     (case tty w of
        None \<Rightarrow> Inl (Perror ''cannot get tty info for stdin'')
      | Some info \<Rightarrow> Inr info)"

definition set_settings :: "termios \<Rightarrow> world \<Rightarrow> (error + int) \<times> world" where
  "set_settings info w =
     (if tty w \<noteq> None \<and> setattr_ok w
      then (Inr 0, w\<lparr>tty := Some info, applied := applied w @ [info]\<rparr>)
      else (Inl (Perror ''Setting attributes''),
            w\<lparr>stderr := stderr w @ [Perror ''Setting attributes''],
              applied := applied w @ [info]\<rparr>))"

text \<open>
  \<^verbatim>\<open>show_tty\<close>: the text it prints, once the window size and the baud value are
  there. Both are computed before the first \<^verbatim>\<open>printf\<close>.
\<close>

definition show_tty_text :: "platform \<Rightarrow> termios \<Rightarrow> winsize \<Rightarrow> nat \<Rightarrow> string" where
  "show_tty_text p info ws baud =
     ''speed '' @ show_nat baud @ '' baud; ''
       @ ''rows '' @ show_nat (unat (ws_row ws)) @ ''; ''
       @ ''cols '' @ show_nat (unat (ws_col ws)) @ '';'' @ [CHR 0x0A]
       @ show_charset p info
       @ show_flagset p info"

definition show_tty :: "platform \<Rightarrow> termios \<Rightarrow> world \<Rightarrow> (error + unit) \<times> world" where
  "show_tty p info w =
     (case get_term_size w of
        Inl e \<Rightarrow> (Inl e, w\<lparr>stderr := stderr w @ [e]\<rparr>)
      | Inr ws \<Rightarrow>
          (case getbaud p (cfgetospeed p info) of
             Inl e \<Rightarrow> (Inl e, w\<lparr>stderr := stderr w @ [e]\<rparr>)
           | Inr baud \<Rightarrow>
               (Inr (), w\<lparr>stdout := stdout w @ show_tty_text p info ws baud\<rparr>)))"

text \<open>
  \<^verbatim>\<open>main\<close>, for \<^verbatim>\<open>av\<close> = \<open>progname # args\<close> (so \<^verbatim>\<open>ac == 1\<close> is \<open>args = []\<close>): the
  exit status and the world the run leaves.
\<close>

definition main :: "platform \<Rightarrow> string \<Rightarrow> string list \<Rightarrow> world \<Rightarrow> int \<times> world" where
  "main p progname args w =
     (case get_settings w of
        Inl e \<Rightarrow> (1, w\<lparr>stderr := stderr w @ [e]\<rparr>)
      | Inr ttyinfo \<Rightarrow>
          if args = []
          then (case show_tty p ttyinfo w of
                  (Inl e, w') \<Rightarrow> (1, w')
                | (Inr u, w') \<Rightarrow> (0, w'))
          else (case main_loop p args ttyinfo of
                  Inl e \<Rightarrow> (1, w\<lparr>stderr := stderr w @ [e]\<rparr>)
                | Inr ttyinfo' \<Rightarrow>
                    (case set_settings ttyinfo' w of
                       (Inl e, w') \<Rightarrow> (1, w')
                     | (Inr r, w') \<Rightarrow> (r, w'))))"

subsection \<open>The rendering of a control character, in the specification's words\<close>

text \<open>
  \<open><undef>\<close> if the stored byte equals the "disabled" sentinel; a caret and the byte
  XORed with 64 if the byte is a control character; otherwise the character itself.
\<close>

definition cchar_rendering :: "cc_t \<Rightarrow> cc_t \<Rightarrow> string" where
  "cchar_rendering disabled b =
     (if b = disabled then ''<undef>''
      else if iscntrl b then [CHR ''^'', char_of (of_char b XOR (64 :: int))]
      else [b])"

subsection \<open>The failures of an argument list, in the specification's words\<close>

text \<open>
  The first failure among the arguments, read from left to right, as a function of the
  arguments alone. An argument that is a control-character name fails with a missing
  argument when nothing follows it, and the one that follows it fails as an invalid
  character argument when it is longer than one character or its first byte is not
  7-bit ASCII; any other argument fails as an illegal option when what is left of it
  after one leading dash is the name of no flag. \<open>None\<close>: no argument fails.
\<close>

fun token_failure :: "platform \<Rightarrow> string list \<Rightarrow> error option" where
  "token_failure p [] = None"
| "token_failure p (T # rest) =
     (if valid_char_opt p T \<noteq> None
      then (case rest of
              [] \<Rightarrow> Some (MissingArgument T)
            | v # rest' \<Rightarrow>
                if 1 < length v \<or> \<not> isascii (first_byte v)
                then Some (InvalidCharArgument v)
                else token_failure p rest')
      else if lookup p (if first_byte T = CHR ''-'' then tl T else T) = None
           then Some (IllegalOption T)
           else token_failure p rest)"

subsection \<open>A terminal to run on\<close>

text \<open>
  The attributes of a Linux terminal after \<^verbatim>\<open>stty sane\<close> at 38400 baud: echo and
  canonical mode on, erase is DEL, interrupt is \<^verbatim>\<open>^C\<close>, end-of-line is undefined.
\<close>

definition sane :: termios where
  "sane = \<lparr>c_iflag = 0x500, c_oflag = 0x5, c_cflag = 0xBF, c_lflag = 0x8A3B,
     c_line = CHR 0x00,
     c_cc = [CHR 0x03, CHR 0x1C, CHR 0x7F, CHR 0x15, CHR 0x04, CHR 0x00, CHR 0x01, CHR 0x00,
             CHR 0x11, CHR 0x13, CHR 0x1A, CHR 0x00, CHR 0x12, CHR 0x0F, CHR 0x17, CHR 0x16,
             CHR 0x00, CHR 0x00, CHR 0x00, CHR 0x00, CHR 0x00, CHR 0x00, CHR 0x00, CHR 0x00,
             CHR 0x00, CHR 0x00, CHR 0x00, CHR 0x00, CHR 0x00, CHR 0x00, CHR 0x00, CHR 0x00],
     c_ispeed = 15, c_ospeed = 15\<rparr>"

definition echo_entry :: table_t where
  "echo_entry = \<lparr>flag = ECHO linux, name = ''echo'', type = ''lflag'', mode = Off_lflag\<rparr>"

definition erase_entry :: ctable_t where
  "erase_entry = \<lparr>c_value = VERASE linux, c_name = ''erase''\<rparr>"

definition console :: world where
  "console = \<lparr>tty = Some sane, setattr_ok = True,
     window = Some \<lparr>ws_row = 24, ws_col = 80\<rparr>,
     stdout = [], stderr = [], applied = []\<rparr>"

section \<open>Properties\<close>

subsection \<open>Flag words\<close>

lemma mode_p_update_same: "mode_p m (mode_p_update m w info) = w"
  by (cases m) simp_all

lemma mode_p_update_twice:
  "mode_p_update m w (mode_p_update m w' info) = mode_p_update m w info"
  by (cases m) simp_all

lemma or_mask_twice: "(w OR m) OR m = w OR (m :: tcflag_t)"
  by (simp add: or.assoc)

lemma and_not_mask_twice: "(w AND NOT m) AND NOT m = w AND NOT (m :: tcflag_t)"
  by (simp add: and.assoc)

lemma or_then_and_not: "(w OR m) AND NOT m = w AND NOT (m :: tcflag_t)"
  by (auto simp: bit_eq_iff bit_simps)

lemma and_not_unchanged_iff: "(w AND NOT m = w) \<longleftrightarrow> (w AND m = (0 :: tcflag_t))"
  by (auto simp: bit_eq_iff bit_simps)


lemma mode_p_update_other: "m \<noteq> m' \<Longrightarrow> mode_p m (mode_p_update m' w info) = mode_p m info"
  by (cases m; cases m') simp_all

lemma c_cc_mode_p_update: "c_cc (mode_p_update m w info) = c_cc info"
  by (cases m) simp_all

lemma set_flag_word:
  "mode_p (mode F) (set_flag F True info) = mode_p (mode F) info OR flag F"
  "mode_p (mode F) (set_flag F False info) = mode_p (mode F) info AND NOT (flag F)"
  by (simp_all add: set_flag_def mode_p_update_same)

lemma set_flag_frame:
  "m \<noteq> mode F \<Longrightarrow> mode_p m (set_flag F b info) = mode_p m info"
  "c_cc (set_flag F b info) = c_cc info"
  by (simp_all add: set_flag_def mode_p_update_other c_cc_mode_p_update)

text \<open>
  C10. Turning a flag on twice, or off twice, gives the record that doing it once
  gives; in particular the flag word at the descriptor's offset is the same.
\<close>

theorem set_flag_idempotent:
  "set_flag F b (set_flag F b R) = set_flag F b R
   \<and> mode_p (mode F) (set_flag F b (set_flag F b R)) = mode_p (mode F) (set_flag F b R)"
  by (simp add: set_flag_def mode_p_update_same mode_p_update_twice or_mask_twice
      and_not_mask_twice)

text \<open>
  C3, as the program has it. Turning a flag on and then off leaves the flag word at the
  descriptor's offset equal to its value before the two calls with the bits of the
  descriptor's mask cleared. That is the value before the two calls exactly when none
  of the bits of the mask was set in it.
\<close>

theorem set_flag_on_off:
  "mode_p (mode F) (set_flag F False (set_flag F True R))
     = mode_p (mode F) R AND NOT (flag F)
   \<and> ((mode_p (mode F) (set_flag F False (set_flag F True R)) = mode_p (mode F) R)
        \<longleftrightarrow> (mode_p (mode F) R AND flag F = 0))"
  by (simp add: set_flag_def mode_p_update_same mode_p_update_twice or_then_and_not
      and_not_unchanged_iff)

text \<open>
  C3 as stated fails where the flag was on before: on a terminal with echo on,
  \<^verbatim>\<open>echo\<close> followed by \<^verbatim>\<open>-echo\<close> leaves the local flag word without the echo bit.
\<close>

theorem set_flag_on_off_counterexample:
  "lookup linux ''echo'' = Some echo_entry
   \<and> get_option linux ''echo'' sane = Inr (set_flag echo_entry True sane)
   \<and> get_option linux ''-echo'' (set_flag echo_entry True sane)
       = Inr (set_flag echo_entry False (set_flag echo_entry True sane))
   \<and> mode_p (mode echo_entry) sane = 0x8A3B
   \<and> mode_p (mode echo_entry) (set_flag echo_entry False (set_flag echo_entry True sane))
       = 0x8A33
   \<and> mode_p (mode echo_entry) (set_flag echo_entry False (set_flag echo_entry True sane))
       \<noteq> mode_p (mode echo_entry) sane"
  by (simp add: lookup_def table_def get_option_def set_flag_def echo_entry_def linux_def
      sane_def fatal_def)

subsection \<open>Control characters\<close>

text \<open>
  C2, as the program has it. \<^verbatim>\<open>change_char\<close> fails exactly when the value is longer
  than one character or its first byte (the terminating NUL of an empty value) is not a
  7-bit ASCII character, and the failure is \<open>InvalidCharArgument\<close> with the value. A value
  of exactly one 7-bit ASCII character is written to the slot of the descriptor. The
  empty value is accepted as well: the NUL that ends it is written to the slot.
\<close>

theorem change_char_fails_iff:
  "((\<exists>e. change_char c v info = Inl e) \<longleftrightarrow> (1 < length v \<or> \<not> isascii (first_byte v)))
   \<and> (\<forall>e. change_char c v info = Inl e \<longrightarrow> e = InvalidCharArgument v)
   \<and> (length v = 1 \<and> isascii (hd v) \<longrightarrow>
        change_char c v info = Inr (info\<lparr>c_cc := (c_cc info)[c_value c := hd v]\<rparr>))
   \<and> (v = [] \<longrightarrow>
        change_char c v info = Inr (info\<lparr>c_cc := (c_cc info)[c_value c := CHR 0x00]\<rparr>))"
proof (intro conjI allI impI)
  show "(\<exists>e. change_char c v info = Inl e) \<longleftrightarrow> (1 < length v \<or> \<not> isascii (first_byte v))"
    by (simp add: change_char_def strlen_def fatal_def)
next
  fix e
  assume "change_char c v info = Inl e"
  then show "e = InvalidCharArgument v"
    by (auto simp: change_char_def fatal_def InvalidCharArgument_def split: if_splits)
next
  assume one: "length v = 1 \<and> isascii (hd v)"
  then obtain x where v: "v = [x]"
    by (cases v) auto
  with one show "change_char c v info = Inr (info\<lparr>c_cc := (c_cc info)[c_value c := hd v]\<rparr>)"
    by (simp add: change_char_def strlen_def)
next
  assume "v = []"
  then show "change_char c v info = Inr (info\<lparr>c_cc := (c_cc info)[c_value c := CHR 0x00]\<rparr>)"
    by (simp add: change_char_def strlen_def isascii_def)
qed

theorem change_char_fails_iff_witness:
  "length ''ab'' \<noteq> 1
   \<and> change_char erase_entry ''ab'' sane = Inl (InvalidCharArgument ''ab'')
   \<and> length ''x'' = 1 \<and> isascii (hd ''x'')
   \<and> change_char erase_entry ''x'' sane
       = Inr (sane\<lparr>c_cc := (c_cc sane)[c_value erase_entry := CHR ''x'']\<rparr>)"
proof -
  have long: "1 < length ''ab''"
    by simp
  from change_char_fails_iff [of erase_entry "''ab''" sane] long
  obtain e where e: "change_char erase_entry ''ab'' sane = Inl e"
    by blast
  with change_char_fails_iff [of erase_entry "''ab''" sane]
  have "e = InvalidCharArgument ''ab''"
    by blast
  moreover have one: "length ''x'' = 1 \<and> isascii (hd ''x'')"
    by (simp add: isascii_def)
  moreover from change_char_fails_iff [of erase_entry "''x''" sane] one
  have "change_char erase_entry ''x'' sane
       = Inr (sane\<lparr>c_cc := (c_cc sane)[c_value erase_entry := hd ''x'']\<rparr>)"
    by blast
  ultimately show ?thesis
    using e by simp
qed

text \<open>
  C2 as stated fails at the empty value: it is not one character long, and
  \<^verbatim>\<open>erase ""\<close> succeeds and replaces DEL in the erase slot with NUL.
\<close>

theorem change_char_empty_counterexample:
  "length '''' \<noteq> 1
   \<and> change_char erase_entry '''' sane
       = Inr (sane\<lparr>c_cc := (c_cc sane)[c_value erase_entry := CHR 0x00]\<rparr>)
   \<and> c_cc (sane\<lparr>c_cc := (c_cc sane)[c_value erase_entry := CHR 0x00]\<rparr>) ! VERASE linux = CHR 0x00
   \<and> c_cc sane ! VERASE linux = CHR 0x7F"
  by (simp add: change_char_def strlen_def isascii_def erase_entry_def linux_def sane_def)

text \<open>
  C8. For a descriptor whose index lies in the control-character array and a 7-bit ASCII
  byte \<open>v\<close>, \<^verbatim>\<open>change_char\<close> succeeds; afterwards the slot of the descriptor holds
  \<open>v\<close>, every other slot holds what it held, the array has the length it had, and each
  of the four flag words is unchanged.
\<close>

theorem change_char_roundtrip:
  assumes "c_value C < length (c_cc R)" and "isascii v"
  shows "change_char C [v] R = Inr (R\<lparr>c_cc := (c_cc R)[c_value C := v]\<rparr>)
    \<and> c_cc (R\<lparr>c_cc := (c_cc R)[c_value C := v]\<rparr>) ! c_value C = v
    \<and> (\<forall>j. j \<noteq> c_value C \<longrightarrow>
          c_cc (R\<lparr>c_cc := (c_cc R)[c_value C := v]\<rparr>) ! j = c_cc R ! j)
    \<and> length (c_cc (R\<lparr>c_cc := (c_cc R)[c_value C := v]\<rparr>)) = length (c_cc R)
    \<and> (\<forall>m. mode_p m (R\<lparr>c_cc := (c_cc R)[c_value C := v]\<rparr>) = mode_p m R)"
proof (intro conjI allI impI)
  show "change_char C [v] R = Inr (R\<lparr>c_cc := (c_cc R)[c_value C := v]\<rparr>)"
    using assms(2) by (simp add: change_char_def strlen_def)
  show "c_cc (R\<lparr>c_cc := (c_cc R)[c_value C := v]\<rparr>) ! c_value C = v"
    using assms(1) by simp
  show "length (c_cc (R\<lparr>c_cc := (c_cc R)[c_value C := v]\<rparr>)) = length (c_cc R)"
    by simp
next
  fix j
  assume "j \<noteq> c_value C"
  then show "c_cc (R\<lparr>c_cc := (c_cc R)[c_value C := v]\<rparr>) ! j = c_cc R ! j"
    by simp
next
  fix m
  show "mode_p m (R\<lparr>c_cc := (c_cc R)[c_value C := v]\<rparr>) = mode_p m R"
    by (cases m) simp_all
qed

theorem change_char_roundtrip_witness:
  "c_value erase_entry < length (c_cc sane) \<and> isascii CHR ''x''
   \<and> change_char erase_entry ''x'' sane
       = Inr (sane\<lparr>c_cc := (c_cc sane)[c_value erase_entry := CHR ''x'']\<rparr>)
   \<and> c_cc (sane\<lparr>c_cc := (c_cc sane)[c_value erase_entry := CHR ''x'']\<rparr>) ! VERASE linux = CHR ''x''
   \<and> c_cc (sane\<lparr>c_cc := (c_cc sane)[c_value erase_entry := CHR ''x'']\<rparr>) ! VKILL linux = CHR 0x15"
proof -
  have h1: "c_value erase_entry < length (c_cc sane)"
    by (simp add: erase_entry_def linux_def sane_def)
  have h2: "isascii CHR ''x''"
    by (simp add: isascii_def)
  have k: "c_cc sane ! VKILL linux = CHR 0x15" "VKILL linux \<noteq> c_value erase_entry" "c_value erase_entry = VERASE linux"
    by (simp_all add: erase_entry_def linux_def sane_def)
  from change_char_roundtrip [OF h1 h2] k h1 h2 show ?thesis
    by metis
qed

subsection \<open>The loop over the arguments\<close>

lemma valid_char_opt_from_Some:
  "valid_char_opt_from cs arg = Some c \<Longrightarrow> c \<in> set cs \<and> c_name c = arg"
  by (induction cs) (auto split: if_splits)

lemma valid_char_opt_from_None_iff:
  "valid_char_opt_from cs arg = None \<longleftrightarrow> arg \<notin> c_name ` set cs"
  by (induction cs) auto

lemma lookup_from_Some: "lookup_from es opt = Some e \<Longrightarrow> e \<in> set es \<and> name e = opt"
  by (induction es) (auto split: if_splits)

lemma lookup_from_None_iff: "lookup_from es opt = None \<longleftrightarrow> opt \<notin> name ` set es"
  by (induction es) auto

lemma main_loop_append:
  "main_loop p pre info = Inr info1 \<Longrightarrow> main_loop p (pre @ rest) info = main_loop p rest info1"
proof (induction p pre info rule: main_loop.induct)
  case (1 p info)
  then show ?case by simp
next
  case (2 p a more info)
  show ?case
  proof (cases "valid_char_opt p a")
    case None
    with "2.prems" obtain info' where step: "get_option p a info = Inr info'"
      and tail: "main_loop p more info' = Inr info1"
      by (auto split: sum.splits)
    from "2.IH"(1) [OF None step tail] None step show ?thesis
      by simp
  next
    case (Some c)
    with "2.prems" obtain v more' info' where more: "more = v # more'"
      and step: "change_char c v info = Inr info'"
      and tail: "main_loop p more' info' = Inr info1"
      by (auto simp: fatal_def split: list.splits sum.splits)
    from "2.IH"(2) [OF Some more step tail] Some more step show ?thesis
      by simp
  qed
qed

lemma get_option_on:
  "first_byte T \<noteq> CHR ''-'' \<Longrightarrow>
     get_option p T info =
       (case lookup p T of None \<Rightarrow> Inl (IllegalOption T) | Some F \<Rightarrow> Inr (set_flag F True info))"
  by (simp add: get_option_def fatal_def IllegalOption_def split: option.splits)

lemma get_option_off:
  "get_option p (CHR ''-'' # rem) info =
     (case lookup p rem of
        None \<Rightarrow> Inl (IllegalOption (CHR ''-'' # rem))
      | Some F \<Rightarrow> Inr (set_flag F False info))"
  by (simp add: get_option_def fatal_def IllegalOption_def split: option.splits)

lemma get_option_error:
  "get_option p T info = Inl e \<Longrightarrow> e = IllegalOption T"
  by (auto simp: get_option_def fatal_def IllegalOption_def Let_def split: if_splits option.splits)

lemma change_char_error:
  "change_char c v info = Inl e \<Longrightarrow> e = InvalidCharArgument v"
  by (auto simp: change_char_def fatal_def InvalidCharArgument_def split: if_splits)

lemma main_loop_error:
  "main_loop p args info = Inl e \<Longrightarrow>
     \<exists>t \<in> set args. e = IllegalOption t \<or> e = MissingArgument t \<or> e = InvalidCharArgument t"
proof (induction p args info rule: main_loop.induct)
  case (1 p info)
  then show ?case by simp
next
  case (2 p a more info)
  show ?case
  proof (cases "valid_char_opt p a")
    case None
    show ?thesis
    proof (cases "get_option p a info")
      case (Inl e')
      with None "2.prems" have "e = IllegalOption a"
        by (auto dest: get_option_error)
      then show ?thesis by simp
    next
      case (Inr info')
      with None "2.prems" have "main_loop p more info' = Inl e"
        by simp
      from "2.IH"(1) [OF None Inr this] show ?thesis
        by auto
    qed
  next
    case (Some c)
    show ?thesis
    proof (cases more)
      case Nil
      with Some "2.prems" have "e = MissingArgument a"
        by (simp add: fatal_def MissingArgument_def)
      then show ?thesis by simp
    next
      case (Cons v more')
      show ?thesis
      proof (cases "change_char c v info")
        case (Inl e')
        with Some Cons "2.prems" have "e = InvalidCharArgument v"
          by (auto dest: change_char_error)
        with Cons show ?thesis by auto
      next
        case (Inr info')
        with Some Cons "2.prems" have "main_loop p more' info' = Inl e"
          by simp
        from "2.IH"(2) [OF Some Cons Inr this] Cons show ?thesis
          by auto
      qed
    qed
  qed
qed

text \<open>
  Whether the loop fails, and how, depends on the arguments only, not on the attributes.
\<close>

lemma change_char_Inl_iff:
  "change_char c v info = Inl e \<longleftrightarrow>
     (1 < length v \<or> \<not> isascii (first_byte v)) \<and> e = InvalidCharArgument v"
  by (auto simp: change_char_def strlen_def fatal_def InvalidCharArgument_def)

lemma get_option_Inl_iff:
  "get_option p T info = Inl e \<longleftrightarrow>
     lookup p (if first_byte T = CHR ''-'' then tl T else T) = None \<and> e = IllegalOption T"
  by (auto simp: get_option_def fatal_def IllegalOption_def split: option.splits)

lemma main_loop_failure_iff:
  "main_loop p args info = Inl e \<longleftrightarrow> token_failure p args = Some e"
proof (induction p args info rule: main_loop.induct)
  case (1 p info)
  show ?case by simp
next
  case (2 p a more info)
  show ?case
  proof (cases "valid_char_opt p a")
    case None
    show ?thesis
    proof (cases "get_option p a info")
      case (Inl e')
      then have "lookup p (if first_byte a = CHR ''-'' then tl a else a) = None"
        and "e' = IllegalOption a"
        by (simp_all add: get_option_Inl_iff)
      with None Inl show ?thesis
        by auto
    next
      case (Inr info')
      then have "lookup p (if first_byte a = CHR ''-'' then tl a else a) \<noteq> None"
        using get_option_Inl_iff [of p a info "IllegalOption a"] by auto
      with None Inr "2.IH"(1) [OF None Inr] show ?thesis
        by (auto split: if_splits)
    qed
  next
    case (Some c)
    show ?thesis
    proof (cases more)
      case Nil
      with Some show ?thesis
        by (auto simp: fatal_def MissingArgument_def)
    next
      case (Cons v more')
      show ?thesis
      proof (cases "change_char c v info")
        case (Inl e')
        then have "1 < length v \<or> \<not> isascii (first_byte v)" and "e' = InvalidCharArgument v"
          by (simp_all add: change_char_Inl_iff)
        with Some Cons Inl show ?thesis
          by auto
      next
        case (Inr info')
        then have "\<not> (1 < length v \<or> \<not> isascii (first_byte v))"
          using change_char_Inl_iff [of c v info "InvalidCharArgument v"] by auto
        with Some Cons Inr "2.IH"(2) [OF Some Cons Inr] show ?thesis
          by (auto split: if_splits)
      qed
    qed
  qed
qed

lemma main_loop_success_iff:
  "(\<exists>info'. main_loop p args info = Inr info') \<longleftrightarrow> token_failure p args = None"
proof (cases "main_loop p args info")
  case (Inl e)
  then have "token_failure p args = Some e"
    by (simp add: main_loop_failure_iff)
  with Inl show ?thesis
    by simp
next
  case (Inr info')
  have "token_failure p args \<noteq> Some e" for e
    using Inr main_loop_failure_iff [of p args info e] by simp
  with Inr show ?thesis
    by (cases "token_failure p args") auto
qed

lemma main_failure:
  assumes "tty w = Some info" and "main_loop p args info = Inl e"
  shows "main p progname args w = (1, w\<lparr>stderr := stderr w @ [e]\<rparr>)"
proof -
  from assms(2) have "args \<noteq> []"
    by auto
  with assms show ?thesis
    by (simp add: main_def get_settings_def)
qed

lemma main_applies:
  assumes "tty w = Some info" and "main_loop p args info = Inr info'" and "args \<noteq> []"
  shows "applied (snd (main p progname args w)) = applied w @ [info']"
  using assms by (simp add: main_def get_settings_def set_settings_def)

text \<open>Runs on the Linux terminal, used by the concrete cases below.\<close>

lemma valid_char_opt_erase: "valid_char_opt linux ''erase'' = Some erase_entry"
  by (simp add: valid_char_opt_def cchars_def erase_entry_def)

lemma valid_char_opt_dash_echo: "valid_char_opt linux ''-echo'' = None"
  by (simp add: valid_char_opt_def cchars_def)

lemma lookup_echo: "lookup linux ''echo'' = Some echo_entry"
  by (simp add: lookup_def table_def echo_entry_def)

lemma main_loop_dash_echo: "main_loop linux [''-echo''] sane = Inr (set_flag echo_entry False sane)"
  by (simp add: valid_char_opt_dash_echo get_option_off lookup_echo)

lemma erase_entry_index: "c_value erase_entry = 2"
  by (simp add: erase_entry_def linux_def)

lemma set_flag_echo_on: "set_flag echo_entry True R = R\<lparr>c_lflag := c_lflag R OR 8\<rparr>"
  by (simp add: set_flag_def echo_entry_def linux_def)

lemma set_flag_echo_off: "set_flag echo_entry False R = R\<lparr>c_lflag := c_lflag R AND NOT 8\<rparr>"
  by (simp add: set_flag_def echo_entry_def linux_def)

lemma c_lflag_sane: "c_lflag sane = 0x8A3B"
  by (simp add: sane_def)

lemma valid_char_opt_echo: "valid_char_opt linux ''echo'' = None"
  by (simp add: valid_char_opt_def cchars_def)

lemma valid_char_opt_foobar: "valid_char_opt linux ''foobar'' = None"
  by (simp add: valid_char_opt_def cchars_def)

lemma lookup_foobar: "lookup linux ''foobar'' = None"
  by (simp add: lookup_def table_def)

text \<open>
  C4. Let the loop have processed the arguments \<open>pre\<close> without failure and stand at an
  argument \<open>T\<close> that \<^verbatim>\<open>valid_char_opt\<close> finds in the table of control characters.
  Then \<open>T\<close> is handled as a control-character option, whatever the table of flags holds
  (\<^verbatim>\<open>get_option\<close> is not called for it): if no argument follows, the run fails with
  \<open>MissingArgument T\<close>; if \<open>v\<close> follows, \<open>v\<close> is only ever given to \<^verbatim>\<open>change_char\<close>,
  whose failure is the failure of the run, and after whose success the loop goes on
  behind \<open>v\<close>, both arguments consumed.
\<close>

theorem main_loop_control_char:
  assumes "valid_char_opt p T = Some c" and "main_loop p pre info = Inr info1"
  shows "c \<in> set (cchars p) \<and> c_name c = T
    \<and> main_loop p (pre @ [T]) info = Inl (MissingArgument T)
    \<and> (\<forall>v rest e. change_char c v info1 = Inl e \<longrightarrow>
          main_loop p (pre @ T # v # rest) info = Inl e)
    \<and> (\<forall>v rest info2. change_char c v info1 = Inr info2 \<longrightarrow>
          main_loop p (pre @ T # v # rest) info = main_loop p rest info2)"
proof (intro conjI allI impI)
  from assms(1) show "c \<in> set (cchars p)" and "c_name c = T"
    by (auto simp: valid_char_opt_def dest: valid_char_opt_from_Some)
  from assms show "main_loop p (pre @ [T]) info = Inl (MissingArgument T)"
    by (simp add: main_loop_append fatal_def MissingArgument_def)
next
  fix v rest e
  assume "change_char c v info1 = Inl e"
  with assms show "main_loop p (pre @ T # v # rest) info = Inl e"
    by (simp add: main_loop_append)
next
  fix v rest info2
  assume "change_char c v info1 = Inr info2"
  with assms show "main_loop p (pre @ T # v # rest) info = main_loop p rest info2"
    by (simp add: main_loop_append)
qed

theorem main_loop_control_char_witness:
  "valid_char_opt linux ''erase'' = Some erase_entry
   \<and> main_loop linux [''-echo''] sane = Inr (set_flag echo_entry False sane)
   \<and> main_loop linux [''-echo'', ''erase''] sane = Inl (MissingArgument ''erase'')
   \<and> main_loop linux [''-echo'', ''erase'', ''echo''] sane = Inl (InvalidCharArgument ''echo'')
   \<and> main_loop linux [''-echo'', ''erase'', ''x''] sane
       = Inr (set_flag echo_entry False sane
               \<lparr>c_cc := (c_cc (set_flag echo_entry False sane))[c_value erase_entry := CHR ''x'']\<rparr>)"
proof -
  note th = main_loop_control_char [OF valid_char_opt_erase main_loop_dash_echo]
  have bad: "change_char erase_entry ''echo'' (set_flag echo_entry False sane)
      = Inl (InvalidCharArgument ''echo'')"
    by (simp add: change_char_def strlen_def fatal_def InvalidCharArgument_def)
  have good: "change_char erase_entry ''x'' (set_flag echo_entry False sane)
      = Inr (set_flag echo_entry False sane
               \<lparr>c_cc := (c_cc (set_flag echo_entry False sane))[c_value erase_entry := CHR ''x'']\<rparr>)"
    by (simp add: change_char_def strlen_def isascii_def)
  from th have "main_loop linux ([''-echo''] @ [''erase'']) sane = Inl (MissingArgument ''erase'')"
    by blast
  moreover from th bad
  have "main_loop linux ([''-echo''] @ ''erase'' # ''echo'' # []) sane = Inl (InvalidCharArgument ''echo'')"
    by blast
  moreover from th good
  have "main_loop linux ([''-echo''] @ ''erase'' # ''x'' # []) sane
      = main_loop linux [] (set_flag echo_entry False sane
               \<lparr>c_cc := (c_cc (set_flag echo_entry False sane))[c_value erase_entry := CHR ''x'']\<rparr>)"
    by blast
  ultimately show ?thesis
    using valid_char_opt_erase main_loop_dash_echo by simp
qed

text \<open>
  C5. Let the loop have processed the arguments \<open>pre\<close> without failure and stand at an
  argument \<open>T\<close> that is no control-character name. If \<open>T\<close> does not begin with a dash,
  \<open>T\<close> itself is looked up in the table of flags; if it does, what follows the first dash
  is looked up, further dashes included. When nothing is found the run fails with
  \<open>IllegalOption T\<close>, \<open>T\<close> being the argument as given. When a descriptor is found the
  loop goes on with the next argument on a record in which the flag word at the
  descriptor's offset is the old word ORed with the mask (no dash) or ANDed with the
  complement of the mask (dash), and the other flag words and the control characters are
  as before. \<^verbatim>\<open>lookup\<close> finds nothing exactly for the strings that are the name of no
  entry, and what it finds is an entry of that name.
\<close>

theorem main_loop_flag:
  assumes "valid_char_opt p T = None" and "main_loop p pre info = Inr info1"
  shows "(first_byte T \<noteq> CHR ''-'' \<and> lookup p T = None \<longrightarrow>
            main_loop p (pre @ T # rest) info = Inl (IllegalOption T))
    \<and> (\<forall>rem. T = CHR ''-'' # rem \<and> lookup p rem = None \<longrightarrow>
            main_loop p (pre @ T # rest) info = Inl (IllegalOption T))
    \<and> (\<forall>F. first_byte T \<noteq> CHR ''-'' \<and> lookup p T = Some F \<longrightarrow>
            main_loop p (pre @ T # rest) info = main_loop p rest (set_flag F True info1)
            \<and> mode_p (mode F) (set_flag F True info1) = mode_p (mode F) info1 OR flag F
            \<and> (\<forall>m. m \<noteq> mode F \<longrightarrow> mode_p m (set_flag F True info1) = mode_p m info1)
            \<and> c_cc (set_flag F True info1) = c_cc info1)
    \<and> (\<forall>rem F. T = CHR ''-'' # rem \<and> lookup p rem = Some F \<longrightarrow>
            main_loop p (pre @ T # rest) info = main_loop p rest (set_flag F False info1)
            \<and> mode_p (mode F) (set_flag F False info1)
                = mode_p (mode F) info1 AND NOT (flag F)
            \<and> (\<forall>m. m \<noteq> mode F \<longrightarrow> mode_p m (set_flag F False info1) = mode_p m info1)
            \<and> c_cc (set_flag F False info1) = c_cc info1)
    \<and> (\<forall>N. lookup p N = None \<longleftrightarrow> N \<notin> name ` set (table p))
    \<and> (\<forall>N F. lookup p N = Some F \<longrightarrow> F \<in> set (table p) \<and> name F = N)"
proof (intro conjI allI impI)
  assume "first_byte T \<noteq> CHR ''-'' \<and> lookup p T = None"
  with assms show "main_loop p (pre @ T # rest) info = Inl (IllegalOption T)"
    by (simp add: main_loop_append get_option_on)
next
  fix F
  assume "first_byte T \<noteq> CHR ''-'' \<and> lookup p T = Some F"
  with assms show "main_loop p (pre @ T # rest) info = main_loop p rest (set_flag F True info1)"
    by (simp add: main_loop_append get_option_on)
next
  fix rem
  assume "T = CHR ''-'' # rem \<and> lookup p rem = None"
  with assms show "main_loop p (pre @ T # rest) info = Inl (IllegalOption T)"
    by (simp add: main_loop_append get_option_off)
next
  fix rem F
  assume "T = CHR ''-'' # rem \<and> lookup p rem = Some F"
  with assms show "main_loop p (pre @ T # rest) info = main_loop p rest (set_flag F False info1)"
    by (simp add: main_loop_append get_option_off)
next
  fix N
  show "lookup p N = None \<longleftrightarrow> N \<notin> name ` set (table p)"
    by (simp add: lookup_def lookup_from_None_iff)
next
  fix N F
  assume "lookup p N = Some F"
  then show "F \<in> set (table p)" and "name F = N"
    by (auto simp: lookup_def dest: lookup_from_Some)
qed (simp_all add: set_flag_word set_flag_frame)

theorem main_loop_flag_witness:
  "valid_char_opt linux ''echo'' = None
   \<and> lookup linux ''echo'' = Some echo_entry
   \<and> main_loop linux [''erase'', ''x''] (sane\<lparr>c_lflag := 0x8A33\<rparr>)
       = Inr (sane\<lparr>c_lflag := 0x8A33, c_cc := (c_cc sane)[2 := CHR ''x'']\<rparr>)
   \<and> main_loop linux [''erase'', ''x'', ''echo''] (sane\<lparr>c_lflag := 0x8A33\<rparr>)
       = Inr (sane\<lparr>c_lflag := 0x8A3B, c_cc := (c_cc sane)[2 := CHR ''x'']\<rparr>)
   \<and> main_loop linux [''erase'', ''x''] sane
       = Inr (sane\<lparr>c_cc := (c_cc sane)[2 := CHR ''x'']\<rparr>)
   \<and> main_loop linux [''erase'', ''x'', ''-echo''] sane
       = Inr (sane\<lparr>c_lflag := 0x8A33, c_cc := (c_cc sane)[2 := CHR ''x'']\<rparr>)
   \<and> main_loop linux [''erase'', ''x'', ''--echo'', ''echo''] sane
       = Inl (IllegalOption ''--echo'')
   \<and> main_loop linux [''erase'', ''x'', ''foobar''] sane = Inl (IllegalOption ''foobar'')"
proof -
  have pre_off: "main_loop linux [''erase'', ''x''] (sane\<lparr>c_lflag := 0x8A33\<rparr>)
       = Inr (sane\<lparr>c_lflag := 0x8A33, c_cc := (c_cc sane)[2 := CHR ''x'']\<rparr>)"
    by (simp add: valid_char_opt_erase change_char_def strlen_def isascii_def
        erase_entry_index)
  have pre_on: "main_loop linux [''erase'', ''x''] sane
       = Inr (sane\<lparr>c_cc := (c_cc sane)[2 := CHR ''x'']\<rparr>)"
    by (simp add: valid_char_opt_erase change_char_def strlen_def isascii_def
        erase_entry_index)
  have none2: "valid_char_opt linux ''--echo'' = None"
    by (simp add: valid_char_opt_def cchars_def)
  have bare: "first_byte ''echo'' \<noteq> CHR ''-'' \<and> lookup linux ''echo'' = Some echo_entry"
    by (simp add: lookup_echo)
  have dash: "''-echo'' = CHR ''-'' # ''echo'' \<and> lookup linux ''echo'' = Some echo_entry"
    by (simp add: lookup_echo)
  have dashes: "''--echo'' = CHR ''-'' # ''-echo'' \<and> lookup linux ''-echo'' = None"
    by (simp add: lookup_def table_def)
  have other: "first_byte ''foobar'' \<noteq> CHR ''-'' \<and> lookup linux ''foobar'' = None"
    by (simp add: lookup_foobar)
  note on = main_loop_flag [OF valid_char_opt_echo pre_off, of "[]", THEN conjunct2,
      THEN conjunct2, THEN conjunct1, THEN spec, THEN mp, OF bare, THEN conjunct1]
  note off = main_loop_flag [OF valid_char_opt_dash_echo pre_on, of "[]", THEN conjunct2,
      THEN conjunct2, THEN conjunct2, THEN conjunct1, THEN spec, THEN spec, THEN mp,
      OF dash, THEN conjunct1]
  note two = main_loop_flag [OF none2 pre_on, of "[''echo'']", THEN conjunct2,
      THEN conjunct1, THEN spec, THEN mp, OF dashes]
  note none = main_loop_flag [OF valid_char_opt_foobar pre_on, of "[]", THEN conjunct1,
      THEN mp, OF other]
  have turned_on: "main_loop linux [''erase'', ''x'', ''echo''] (sane\<lparr>c_lflag := 0x8A33\<rparr>)
      = Inr (sane\<lparr>c_lflag := 0x8A3B, c_cc := (c_cc sane)[2 := CHR ''x'']\<rparr>)"
    using on by (simp add: set_flag_echo_on)
  have turned_off: "main_loop linux [''erase'', ''x'', ''-echo''] sane
      = Inr (sane\<lparr>c_lflag := 0x8A33, c_cc := (c_cc sane)[2 := CHR ''x'']\<rparr>)"
    using off by (simp add: set_flag_echo_off c_lflag_sane)
  have twice: "main_loop linux [''erase'', ''x'', ''--echo'', ''echo''] sane
      = Inl (IllegalOption ''--echo'')"
    using two by simp
  have unknown: "main_loop linux [''erase'', ''x'', ''foobar''] sane
      = Inl (IllegalOption ''foobar'')"
    using none by simp
  show ?thesis
    by (intro conjI; (rule valid_char_opt_echo lookup_echo pre_off pre_on turned_on turned_off
        twice unknown))
qed

subsection \<open>Failure before the attributes are applied\<close>

text \<open>
  C1, as the program has it. Let the attributes have been read, and let no argument of
  \<open>pre\<close> fail. An argument after \<open>pre\<close> that is neither a control-character name nor,
  with one leading dash removed, a flag name; a control-character name after \<open>pre\<close> with
  no argument behind it; and a control-character name after \<open>pre\<close> followed by a value
  that is longer than one character or whose first byte is not 7-bit ASCII: each makes
  \<^verbatim>\<open>main\<close> exit with status 1, with the world as it found it but for the one
  diagnostic on the standard error. In general, when some argument fails, the terminal
  keeps its attributes, \<^verbatim>\<open>tcsetattr\<close> is not called and nothing is printed, whatever
  the arguments before the failing one did to the record in memory. When no argument
  fails, the record the loop ends with is handed to \<^verbatim>\<open>tcsetattr\<close>. An empty value is
  no failure.
\<close>

theorem main_token_failure:
  assumes "tty w = Some info" and "token_failure p pre = None"
  shows "(valid_char_opt p T = None
          \<and> lookup p (if first_byte T = CHR ''-'' then tl T else T) = None \<longrightarrow>
            main p progname (pre @ T # rest) w
              = (1, w\<lparr>stderr := stderr w @ [IllegalOption T]\<rparr>))
    \<and> (valid_char_opt p T \<noteq> None \<longrightarrow>
            main p progname (pre @ [T]) w
              = (1, w\<lparr>stderr := stderr w @ [MissingArgument T]\<rparr>))
    \<and> (valid_char_opt p T \<noteq> None \<and> (1 < length v \<or> \<not> isascii (first_byte v)) \<longrightarrow>
            main p progname (pre @ T # v # rest) w
              = (1, w\<lparr>stderr := stderr w @ [InvalidCharArgument v]\<rparr>))
    \<and> (\<forall>args e. token_failure p args = Some e \<longrightarrow>
            main p progname args w = (1, w\<lparr>stderr := stderr w @ [e]\<rparr>)
            \<and> tty (snd (main p progname args w)) = tty w
            \<and> applied (snd (main p progname args w)) = applied w
            \<and> stdout (snd (main p progname args w)) = stdout w)
    \<and> (\<forall>args. token_failure p args = None \<and> args \<noteq> [] \<longrightarrow>
            (\<exists>info'. main_loop p args info = Inr info'
               \<and> applied (snd (main p progname args w)) = applied w @ [info']))"
proof -
  from assms(2) obtain info1 where pre: "main_loop p pre info = Inr info1"
    using main_loop_success_iff [of p pre info] by blast
  have illegal: "main p progname (pre @ T # rest) w
      = (1, w\<lparr>stderr := stderr w @ [IllegalOption T]\<rparr>)"
    if "valid_char_opt p T = None
        \<and> lookup p (if first_byte T = CHR ''-'' then tl T else T) = None"
  proof -
    from that have "get_option p T info1 = Inl (IllegalOption T)"
      by (simp add: get_option_Inl_iff)
    with that pre have "main_loop p (pre @ T # rest) info = Inl (IllegalOption T)"
      by (simp add: main_loop_append)
    with assms(1) show ?thesis
      by (rule main_failure)
  qed
  have missing: "main p progname (pre @ [T]) w
      = (1, w\<lparr>stderr := stderr w @ [MissingArgument T]\<rparr>)"
    if "valid_char_opt p T \<noteq> None"
  proof -
    from that pre have "main_loop p (pre @ [T]) info = Inl (MissingArgument T)"
      by (auto simp: main_loop_append fatal_def MissingArgument_def)
    with assms(1) show ?thesis
      by (rule main_failure)
  qed
  have invalid: "main p progname (pre @ T # v # rest) w
      = (1, w\<lparr>stderr := stderr w @ [InvalidCharArgument v]\<rparr>)"
    if "valid_char_opt p T \<noteq> None \<and> (1 < length v \<or> \<not> isascii (first_byte v))"
  proof -
    from that obtain c where c: "valid_char_opt p T = Some c"
      by blast
    from that have "change_char c v info1 = Inl (InvalidCharArgument v)"
      by (simp add: change_char_Inl_iff)
    with c pre have "main_loop p (pre @ T # v # rest) info = Inl (InvalidCharArgument v)"
      by (simp add: main_loop_append)
    with assms(1) show ?thesis
      by (rule main_failure)
  qed
  have general: "main p progname args w = (1, w\<lparr>stderr := stderr w @ [e]\<rparr>)
      \<and> tty (snd (main p progname args w)) = tty w
      \<and> applied (snd (main p progname args w)) = applied w
      \<and> stdout (snd (main p progname args w)) = stdout w"
    if "token_failure p args = Some e" for args e
  proof -
    from that have "main_loop p args info = Inl e"
      by (simp add: main_loop_failure_iff)
    with assms(1) have "main p progname args w = (1, w\<lparr>stderr := stderr w @ [e]\<rparr>)"
      by (rule main_failure)
    then show ?thesis
      by simp
  qed
  have accepted: "\<exists>info'. main_loop p args info = Inr info'
      \<and> applied (snd (main p progname args w)) = applied w @ [info']"
    if "token_failure p args = None \<and> args \<noteq> []" for args
  proof -
    from that obtain info' where "main_loop p args info = Inr info'"
      using main_loop_success_iff [of p args info] by blast
    with assms(1) that show ?thesis
      by (auto simp: main_applies)
  qed
  show ?thesis
  proof (intro conjI allI impI)
    assume "valid_char_opt p T = None
        \<and> lookup p (if first_byte T = CHR ''-'' then tl T else T) = None"
    then show "main p progname (pre @ T # rest) w
        = (1, w\<lparr>stderr := stderr w @ [IllegalOption T]\<rparr>)"
      by (rule illegal)
  next
    assume "valid_char_opt p T \<noteq> None"
    then show "main p progname (pre @ [T]) w
        = (1, w\<lparr>stderr := stderr w @ [MissingArgument T]\<rparr>)"
      by (rule missing)
  next
    assume "valid_char_opt p T \<noteq> None \<and> (1 < length v \<or> \<not> isascii (first_byte v))"
    then show "main p progname (pre @ T # v # rest) w
        = (1, w\<lparr>stderr := stderr w @ [InvalidCharArgument v]\<rparr>)"
      by (rule invalid)
  next
    fix args e
    assume "token_failure p args = Some e"
    from general [OF this]
    show "main p progname args w = (1, w\<lparr>stderr := stderr w @ [e]\<rparr>)"
      and "tty (snd (main p progname args w)) = tty w"
      and "applied (snd (main p progname args w)) = applied w"
      and "stdout (snd (main p progname args w)) = stdout w"
      by simp_all
  next
    fix args
    assume "token_failure p args = None \<and> args \<noteq> []"
    then show "\<exists>info'. main_loop p args info = Inr info'
        \<and> applied (snd (main p progname args w)) = applied w @ [info']"
      by (rule accepted)
  qed
qed

theorem main_token_failure_witness:
  "tty console = Some sane
   \<and> token_failure linux [''-echo''] = None
   \<and> main_loop linux [''-echo''] sane = Inr (sane\<lparr>c_lflag := 0x8A33\<rparr>)
   \<and> main linux ''sttyl'' [''-echo'', ''foobar''] console
       = (1, console\<lparr>stderr := [IllegalOption ''foobar'']\<rparr>)
   \<and> main linux ''sttyl'' [''-echo'', ''erase''] console
       = (1, console\<lparr>stderr := [MissingArgument ''erase'']\<rparr>)
   \<and> main linux ''sttyl'' [''-echo'', ''erase'', ''ab''] console
       = (1, console\<lparr>stderr := [InvalidCharArgument ''ab'']\<rparr>)
   \<and> tty (console\<lparr>stderr := [IllegalOption ''foobar'']\<rparr>) = Some sane
   \<and> applied (console\<lparr>stderr := [IllegalOption ''foobar'']\<rparr>) = []"
proof -
  have t: "tty console = Some sane" and e: "stderr console = []" and a: "applied console = []"
    by (simp_all add: console_def)
  have pre: "token_failure linux [''-echo''] = None"
    by (simp add: valid_char_opt_dash_echo lookup_echo)
  have mem: "main_loop linux [''-echo''] sane = Inr (sane\<lparr>c_lflag := 0x8A33\<rparr>)"
    by (subst main_loop_dash_echo) (simp add: set_flag_echo_off c_lflag_sane)
  have unknown: "valid_char_opt linux ''foobar'' = None
      \<and> lookup linux (if first_byte ''foobar'' = CHR ''-'' then tl ''foobar'' else ''foobar'')
          = None"
    by (simp add: valid_char_opt_foobar lookup_foobar)
  have erase: "valid_char_opt linux ''erase'' \<noteq> None"
    by (simp add: valid_char_opt_erase)
  have long: "valid_char_opt linux ''erase'' \<noteq> None
      \<and> (1 < length ''ab'' \<or> \<not> isascii (first_byte ''ab''))"
    by (simp add: valid_char_opt_erase)
  note th = main_token_failure [OF t pre, where progname = "''sttyl''"]
  note first = th [where T = "''foobar''" and rest = "[]", THEN conjunct1, THEN mp, OF unknown]
  note second = th [where T = "''erase''", THEN conjunct2, THEN conjunct1, THEN mp, OF erase]
  note third = th [where T = "''erase''" and rest = "[]" and v = "''ab''", THEN conjunct2,
      THEN conjunct2, THEN conjunct1, THEN mp, OF long]
  have one: "main linux ''sttyl'' [''-echo'', ''foobar''] console
       = (1, console\<lparr>stderr := [IllegalOption ''foobar'']\<rparr>)"
    using first e by simp
  have two: "main linux ''sttyl'' [''-echo'', ''erase''] console
       = (1, console\<lparr>stderr := [MissingArgument ''erase'']\<rparr>)"
    using second e by simp
  have three: "main linux ''sttyl'' [''-echo'', ''erase'', ''ab''] console
       = (1, console\<lparr>stderr := [InvalidCharArgument ''ab'']\<rparr>)"
    using third e by simp
  have kept: "tty (console\<lparr>stderr := [IllegalOption ''foobar'']\<rparr>) = Some sane"
    and none: "applied (console\<lparr>stderr := [IllegalOption ''foobar'']\<rparr>) = []"
    using t a by simp_all
  show ?thesis
    by (intro conjI; (rule t pre mem one two three kept none))
qed

text \<open>
  C1 as stated fails at the empty value, which is not a single 7-bit ASCII character:
  \<^verbatim>\<open>sttyl erase ""\<close> exits with status 0 and has applied a record whose erase slot
  holds NUL.
\<close>

theorem main_empty_value_counterexample:
  "length '''' \<noteq> 1
   \<and> main linux ''sttyl'' [''erase'', ''''] console
       = (0, console\<lparr>tty := Some (sane\<lparr>c_cc := (c_cc sane)[2 := CHR 0x00]\<rparr>),
               applied := [sane\<lparr>c_cc := (c_cc sane)[2 := CHR 0x00]\<rparr>]\<rparr>)
   \<and> tty console = Some sane
   \<and> sane\<lparr>c_cc := (c_cc sane)[2 := CHR 0x00]\<rparr> \<noteq> sane"
proof -
  have differs: "sane\<lparr>c_cc := (c_cc sane)[2 := CHR 0x00]\<rparr> \<noteq> sane"
  proof
    assume "sane\<lparr>c_cc := (c_cc sane)[2 := CHR 0x00]\<rparr> = sane"
    then have "c_cc (sane\<lparr>c_cc := (c_cc sane)[2 := CHR 0x00]\<rparr>) = c_cc sane"
      by (rule arg_cong)
    then show False
      by (simp add: sane_def)
  qed
  have "main linux ''sttyl'' [''erase'', ''''] console
       = (0, console\<lparr>tty := Some (sane\<lparr>c_cc := (c_cc sane)[2 := CHR 0x00]\<rparr>),
               applied := [sane\<lparr>c_cc := (c_cc sane)[2 := CHR 0x00]\<rparr>]\<rparr>)"
    by (simp add: main_def get_settings_def set_settings_def console_def valid_char_opt_erase
        change_char_def strlen_def isascii_def erase_entry_index)
  with differs show ?thesis
    by (simp add: console_def)
qed

subsection \<open>Display\<close>

lemma show_nat_small: "n < 10 \<Longrightarrow> show_nat n = [char_of (48 + int n)]"
  by (simp add: show_nat.simps)

lemma show_nat_large:
  "\<not> n < 10 \<Longrightarrow> show_nat n = show_nat (n div 10) @ [char_of (48 + int (n mod 10))]"
  by (subst show_nat.simps) simp

lemma show_cchar_rendering:
  "show_cchar p c R =
     c_name c @ '' = '' @ cchar_rendering (POSIX_VDISABLE p) (c_cc R ! c_value c) @ ''; ''"
  by (simp add: show_cchar_def cchar_rendering_def CHAR_MASK_def Let_def)

lemma show_charset_from_concat:
  "show_charset_from p i cs R =
     (if i = 0 \<and> cs \<noteq> [] then ''cchars: '' else []) @ concat (map (\<lambda>c. show_cchar p c R) cs)"
  by (induction cs arbitrary: i) simp_all

lemma cchars_not_Nil: "cchars p \<noteq> []"
  by (simp add: cchars_def)

lemma cchar_rendering_DEL: "d \<noteq> CHR 0x7F \<Longrightarrow> cchar_rendering d (CHR 0x7F) = ''^?''"
  by (simp add: cchar_rendering_def iscntrl_def char_of_def)

text \<open>What the program prints for the Linux terminal.\<close>

lemma show_charset_sane:
  "show_charset linux sane =
     ''cchars: eof = ^D; eol = <undef>; erase = ^?; intr = ^C; kill = ^U; quit = ^''
       @ [CHR 0x5C] @ ''; susp = ^Z; ''"
  by (simp add: show_charset_def cchars_def show_cchar_def linux_def sane_def iscntrl_def
      CHAR_MASK_def char_of_def)

lemma show_flagset_sane:
  "show_flagset linux sane =
     [CHR 0x0A] @ ''iflags: icrnl '' @ [CHR 0x0A] @ ''oflags: opost '' @ [CHR 0x0A]
       @ ''cflags: -hupcl '' @ [CHR 0x0A] @ ''lflags: isig icanon echo echoe echok ''
       @ [CHR 0x0A]"
  by (simp add: show_flagset_def table_def show_flag_def linux_def sane_def)

lemma show_nat_38400: "show_nat 38400 = ''38400''" 
  by (simp add: show_nat_small show_nat_large char_of_def)

lemma show_nat_24: "show_nat 24 = ''24''" 
  by (simp add: show_nat_small show_nat_large char_of_def)

lemma show_nat_80: "show_nat 80 = ''80''" 
  by (simp add: show_nat_small show_nat_large char_of_def)

lemma getbaud_sane: "getbaud linux (cfgetospeed linux sane) = Inr 38400"
  by (simp add: getbaud_def baud_rates_def sane_def linux_def)

text \<open>
  C7. \<^verbatim>\<open>show_charset\<close> prints the header \<^verbatim>\<open>cchars: \<close> and then, for the entries of
  the table in their order, the name, \<^verbatim>\<open> = \<close>, the rendering of the byte stored at the
  entry's index, and \<^verbatim>\<open>; \<close>. Where DEL is not the sentinel of the platform (it is 0 on
  Linux and 255 on the BSDs) and the erase slot holds DEL, the third entry is printed as
  \<^verbatim>\<open>erase = ^?; \<close>.
\<close>

theorem show_charset_layout:
  "show_charset p R =
     ''cchars: '' @ concat (map (\<lambda>c. c_name c @ '' = ''
        @ cchar_rendering (POSIX_VDISABLE p) (c_cc R ! c_value c) @ ''; '') (cchars p))
   \<and> (POSIX_VDISABLE p \<noteq> CHR 0x7F \<and> c_cc R ! VERASE p = CHR 0x7F \<longrightarrow>
        show_charset p R =
          ''cchars: '' @ concat (map (\<lambda>c. show_cchar p c R) (take 2 (cchars p)))
            @ ''erase = ^?; '' @ concat (map (\<lambda>c. show_cchar p c R) (drop 3 (cchars p))))"
proof (intro conjI impI)
  show "show_charset p R =
     ''cchars: '' @ concat (map (\<lambda>c. c_name c @ '' = ''
        @ cchar_rendering (POSIX_VDISABLE p) (c_cc R ! c_value c) @ ''; '') (cchars p))"
    by (simp add: show_charset_def show_charset_from_concat cchars_not_Nil show_cchar_rendering)
next
  assume del: "POSIX_VDISABLE p \<noteq> CHR 0x7F \<and> c_cc R ! VERASE p = CHR 0x7F"
  have split: "cchars p = take 2 (cchars p) @ \<lparr>c_value = VERASE p, c_name = ''erase''\<rparr>
      # drop 3 (cchars p)"
    by (simp add: cchars_def)
  have "show_cchar p \<lparr>c_value = VERASE p, c_name = ''erase''\<rparr> R = ''erase = ^?; ''"
    using del by (simp add: show_cchar_rendering cchar_rendering_DEL)
  then have "concat (map (\<lambda>c. show_cchar p c R) (cchars p)) =
      concat (map (\<lambda>c. show_cchar p c R) (take 2 (cchars p))) @ ''erase = ^?; ''
        @ concat (map (\<lambda>c. show_cchar p c R) (drop 3 (cchars p)))"
    by (subst split) simp
  then show "show_charset p R =
          ''cchars: '' @ concat (map (\<lambda>c. show_cchar p c R) (take 2 (cchars p)))
            @ ''erase = ^?; '' @ concat (map (\<lambda>c. show_cchar p c R) (drop 3 (cchars p)))"
    by (simp add: show_charset_def show_charset_from_concat cchars_not_Nil)
qed

theorem show_charset_layout_witness:
  "POSIX_VDISABLE linux \<noteq> CHR 0x7F \<and> c_cc sane ! VERASE linux = CHR 0x7F
   \<and> show_charset linux sane =
       ''cchars: eof = ^D; eol = <undef>; erase = ^?; intr = ^C; kill = ^U; quit = ^''
         @ [CHR 0x5C] @ ''; susp = ^Z; ''"
proof -
  have del: "POSIX_VDISABLE linux \<noteq> CHR 0x7F \<and> c_cc sane ! VERASE linux = CHR 0x7F"
    by (simp add: linux_def sane_def)
  have before: "concat (map (\<lambda>c. show_cchar linux c sane) (take 2 (cchars linux)))
      = ''eof = ^D; eol = <undef>; ''"
    by (simp add: cchars_def show_cchar_def linux_def sane_def iscntrl_def CHAR_MASK_def
        char_of_def)
  have after: "concat (map (\<lambda>c. show_cchar linux c sane) (drop 3 (cchars linux)))
      = ''intr = ^C; kill = ^U; quit = ^'' @ [CHR 0x5C] @ ''; susp = ^Z; ''"
    by (simp add: cchars_def show_cchar_def linux_def sane_def iscntrl_def CHAR_MASK_def
        char_of_def)
  from show_charset_layout [of linux sane] del
  have "show_charset linux sane =
          ''cchars: '' @ concat (map (\<lambda>c. show_cchar linux c sane) (take 2 (cchars linux)))
            @ ''erase = ^?; '' @ concat (map (\<lambda>c. show_cchar linux c sane) (drop 3 (cchars linux)))"
    by blast
  with before after del show ?thesis
    by simp
qed




text \<open>The whole display of the Linux terminal in a window of 24 rows and 80 columns.\<close>

lemma show_tty_sane:
  "window w = Some \<lparr>ws_row = 24, ws_col = 80\<rparr> \<Longrightarrow>
   show_tty linux sane w = (Inr (), w\<lparr>stdout := stdout w @
     ''speed 38400 baud; rows 24; cols 80;'' @ [CHR 0x0A]
     @ ''cchars: eof = ^D; eol = <undef>; erase = ^?; intr = ^C; kill = ^U; quit = ^''
       @ [CHR 0x5C] @ ''; susp = ^Z; ''
     @ [CHR 0x0A] @ ''iflags: icrnl '' @ [CHR 0x0A] @ ''oflags: opost '' @ [CHR 0x0A]
     @ ''cflags: -hupcl '' @ [CHR 0x0A] @ ''lflags: isig icanon echo echoe echok ''
     @ [CHR 0x0A]\<rparr>)"
  by (simp add: show_tty_def get_term_size_def getbaud_sane show_tty_text_def show_nat_38400
      show_nat_24 show_nat_80 show_charset_sane show_flagset_sane)

text \<open>
  C9. Two runs of \<^verbatim>\<open>show_tty\<close> on the same attribute record, in worlds that give the
  same window size and may differ in everything else, end the same way (both print, or
  both fail with the same diagnostic) and append the same text to the standard output.
  The only library call of the display that depends on a locale is \<^verbatim>\<open>iscntrl\<close>, and
  the program stays in the C locale.
\<close>

theorem show_tty_deterministic:
  assumes "info1 = info2" and "window w1 = window w2"
  shows "fst (show_tty p info1 w1) = fst (show_tty p info2 w2)
    \<and> (\<exists>printed. stdout (snd (show_tty p info1 w1)) = stdout w1 @ printed
          \<and> stdout (snd (show_tty p info2 w2)) = stdout w2 @ printed)"
proof (cases "window w1")
  case None
  with assms have "fst (show_tty p info1 w1) = fst (show_tty p info2 w2)"
    and "stdout (snd (show_tty p info1 w1)) = stdout w1 @ []"
    and "stdout (snd (show_tty p info2 w2)) = stdout w2 @ []"
    by (simp_all add: show_tty_def get_term_size_def)
  then show ?thesis by blast
next
  case (Some ws)
  show ?thesis
  proof (cases "getbaud p (cfgetospeed p info1)")
    case (Inl e)
    with Some assms have "fst (show_tty p info1 w1) = fst (show_tty p info2 w2)"
      and "stdout (snd (show_tty p info1 w1)) = stdout w1 @ []"
      and "stdout (snd (show_tty p info2 w2)) = stdout w2 @ []"
      by (simp_all add: show_tty_def get_term_size_def)
    then show ?thesis by blast
  next
    case (Inr baud)
    with Some assms have "fst (show_tty p info1 w1) = fst (show_tty p info2 w2)"
      and "stdout (snd (show_tty p info1 w1)) = stdout w1 @ show_tty_text p info1 ws baud"
      and "stdout (snd (show_tty p info2 w2)) = stdout w2 @ show_tty_text p info1 ws baud"
      by (simp_all add: show_tty_def get_term_size_def)
    then show ?thesis by blast
  qed
qed

theorem show_tty_deterministic_witness:
  "window console = window (console\<lparr>setattr_ok := False, stdout := ''$ ''\<rparr>)
   \<and> fst (show_tty linux sane console)
       = fst (show_tty linux sane (console\<lparr>setattr_ok := False, stdout := ''$ ''\<rparr>))
   \<and> stdout (snd (show_tty linux sane console)) =
       ''speed 38400 baud; rows 24; cols 80;'' @ [CHR 0x0A]
       @ ''cchars: eof = ^D; eol = <undef>; erase = ^?; intr = ^C; kill = ^U; quit = ^''
         @ [CHR 0x5C] @ ''; susp = ^Z; ''
       @ [CHR 0x0A] @ ''iflags: icrnl '' @ [CHR 0x0A] @ ''oflags: opost '' @ [CHR 0x0A]
       @ ''cflags: -hupcl '' @ [CHR 0x0A] @ ''lflags: isig icanon echo echoe echok ''
       @ [CHR 0x0A]
   \<and> stdout (snd (show_tty linux sane (console\<lparr>setattr_ok := False, stdout := ''$ ''\<rparr>))) =
       ''$ '' @ ''speed 38400 baud; rows 24; cols 80;'' @ [CHR 0x0A]
       @ ''cchars: eof = ^D; eol = <undef>; erase = ^?; intr = ^C; kill = ^U; quit = ^''
         @ [CHR 0x5C] @ ''; susp = ^Z; ''
       @ [CHR 0x0A] @ ''iflags: icrnl '' @ [CHR 0x0A] @ ''oflags: opost '' @ [CHR 0x0A]
       @ ''cflags: -hupcl '' @ [CHR 0x0A] @ ''lflags: isig icanon echo echoe echok ''
       @ [CHR 0x0A]"
proof -
  have same: "window console = window (console\<lparr>setattr_ok := False, stdout := ''$ ''\<rparr>)"
    by simp
  have win: "window console = Some \<lparr>ws_row = 24, ws_col = 80\<rparr>" and out: "stdout console = []"
    by (simp_all add: console_def)
  from show_tty_deterministic [OF refl same, of linux sane]
  obtain printed where
    same_end: "fst (show_tty linux sane console)
       = fst (show_tty linux sane (console\<lparr>setattr_ok := False, stdout := ''$ ''\<rparr>))"
    and one: "stdout (snd (show_tty linux sane console)) = stdout console @ printed"
    and two: "stdout (snd (show_tty linux sane (console\<lparr>setattr_ok := False, stdout := ''$ ''\<rparr>)))
       = stdout (console\<lparr>setattr_ok := False, stdout := ''$ ''\<rparr>) @ printed"
    by blast
  from one out show_tty_sane [OF win] have "printed =
       ''speed 38400 baud; rows 24; cols 80;'' @ [CHR 0x0A]
       @ ''cchars: eof = ^D; eol = <undef>; erase = ^?; intr = ^C; kill = ^U; quit = ^''
         @ [CHR 0x5C] @ ''; susp = ^Z; ''
       @ [CHR 0x0A] @ ''iflags: icrnl '' @ [CHR 0x0A] @ ''oflags: opost '' @ [CHR 0x0A]
       @ ''cflags: -hupcl '' @ [CHR 0x0A] @ ''lflags: isig icanon echo echoe echok ''
       @ [CHR 0x0A]"
    by simp
  with same_end one two out same show ?thesis
    by simp
qed

end
